theory Spec2Isabelle
  imports Complex_Main "HOL-Library.Word"
begin

section \<open>JavaScript strings and values\<close>

text \<open>
  Strings are byte lists. \<open>toLowerCase\<close> is \<^verbatim>\<open>String.prototype.toLowerCase\<close> on the
  ASCII letters; every other byte is left as it is. \<open>str_includes t q\<close> is
  \<^verbatim>\<open>t.includes(q)\<close>, and \<open>js_words [] q\<close> is
  \<^verbatim>\<open>q.split(/\s+/).filter(w => w.length > 0)\<close> for the ASCII white space characters.
\<close>

definition lower_char :: "char \<Rightarrow> char" where
  "lower_char c =
     (case map_of (zip ''ABCDEFGHIJKLMNOPQRSTUVWXYZ'' ''abcdefghijklmnopqrstuvwxyz'') c of
        Some d \<Rightarrow> d
      | None \<Rightarrow> c)"

definition toLowerCase :: "string \<Rightarrow> string" where
  "toLowerCase s = map lower_char s"

fun starts_with :: "string \<Rightarrow> string \<Rightarrow> bool" where
  "starts_with t [] = True"
| "starts_with [] (q # qs) = False"
| "starts_with (c # cs) (q # qs) = (c = q \<and> starts_with cs qs)"

fun str_includes :: "string \<Rightarrow> string \<Rightarrow> bool" where
  "str_includes [] q = (q = [])"
| "str_includes (c # cs) q = (starts_with (c # cs) q \<or> str_includes cs q)"

definition is_space :: "char \<Rightarrow> bool" where
  "is_space c = (c \<in> set [CHR '' '', CHR 0x09, CHR 0x0A, CHR 0x0B, CHR 0x0C, CHR 0x0D])"

fun js_words :: "string \<Rightarrow> string \<Rightarrow> string list" where
  "js_words w [] = (if w = [] then [] else [w])"
| "js_words w (c # cs) =
     (if is_space c then (if w = [] then js_words [] cs else w # js_words [] cs)
      else js_words (w @ [c]) cs)"

fun join :: "string \<Rightarrow> string list \<Rightarrow> string" where
  "join sep [] = []"
| "join sep [x] = x"
| "join sep (x # y # ys) = x @ sep @ join sep (y # ys)"

text \<open>
  The values a caller can put into \<^verbatim>\<open>parameters\<close> or \<^verbatim>\<open>queryOptions\<close>
  (\<^verbatim>\<open>Record<string, unknown>\<close>). \<open>JNum w\<close> is the integral number \<open>sint w\<close>, of
  magnitude at most \<open>2^53\<close>, which JavaScript holds exactly and renders in decimal.
  \<open>JOther s t\<close> is any other value (a fractional or larger number, an array, an
  object, a function), given by the string \<open>s\<close> that \<^verbatim>\<open>String\<close> renders for it and
  by its truthiness \<open>t\<close>. \<open>js_String\<close> is \<^verbatim>\<open>String(v)\<close>, which is also how a
  template literal renders a value.
\<close>

datatype jsval = JStr string | JNum "54 word" | JBool bool | JNull | JOther string bool

fun digits :: "nat \<Rightarrow> nat \<Rightarrow> string" where
  "digits 0 n = []"
| "digits (Suc fuel) n =
     (if n < 10 then [''0123456789'' ! n]
      else digits fuel (n div 10) @ [''0123456789'' ! (n mod 10)])"

definition show_int :: "int \<Rightarrow> string" where
  "show_int i = (if i < 0 then ''-'' @ digits (Suc (nat (- i))) (nat (- i))
                 else digits (Suc (nat i)) (nat i))"

fun js_String :: "jsval \<Rightarrow> string" where
  "js_String (JStr s) = s"
| "js_String (JNum w) = show_int (sint w)"
| "js_String (JBool b) = (if b then ''true'' else ''false'')"
| "js_String JNull = ''null''"
| "js_String (JOther s t) = s"

fun truthy :: "jsval \<Rightarrow> bool" where
  "truthy (JStr s) = (s \<noteq> [])"
| "truthy (JNum w) = (w \<noteq> 0)"
| "truthy (JBool b) = b"
| "truthy JNull = False"
| "truthy (JOther s t) = t"

text \<open>
  An object is given by its own properties. Every object the dispatcher receives also
  inherits the members of \<^verbatim>\<open>Object.prototype\<close>, which the \<^verbatim>\<open>in\<close> operator and a
  property read both find: \<open>js_get obj name\<close> is \<open>None\<close> when \<^verbatim>\<open>name in obj\<close> is
  false and otherwise the value of \<^verbatim>\<open>obj[name]\<close>. The inherited members are
  functions, rendered as native code, and the prototype itself under \<^verbatim>\<open>__proto__\<close>.
\<close>

type_synonym js_object = "string \<rightharpoonup> jsval"

definition object_prototype_names :: "string list" where
  "object_prototype_names =
     [''constructor'', ''__defineGetter__'', ''__defineSetter__'', ''hasOwnProperty'',
      ''__lookupGetter__'', ''__lookupSetter__'', ''isPrototypeOf'', ''propertyIsEnumerable'',
      ''toString'', ''valueOf'', ''__proto__'', ''toLocaleString'']"

definition inherited :: "string \<Rightarrow> jsval" where
  "inherited name =
     (if name = ''__proto__'' then JOther ''[object Object]'' True
      else JOther (''function '' @ (if name = ''constructor'' then ''Object'' else name) @
                   ''() { [native code] }'') True)"

definition js_get :: "js_object \<Rightarrow> string \<Rightarrow> jsval option" where
  "js_get obj name =
     (case obj name of
        Some v \<Rightarrow> Some v
      | None \<Rightarrow> if name \<in> set object_prototype_names then Some (inherited name) else None)"

section \<open>The service catalog\<close>

record property =
  prop_name :: string
  prop_type :: string
  prop_nullable :: bool
  prop_maxLength :: "string option"

record entity_type =
  ent_name :: string
  ent_entitySet :: "string option"
  ent_namespace :: string
  ent_keys :: "string list"
  ent_properties :: "property list"
  creatable :: bool
  updatable :: bool
  deletable :: bool

text \<open>
  \<open>svc_entityTypes\<close> is \<^verbatim>\<open>service.metadata?.entityTypes\<close>: \<open>None\<close> when the
  metadata or its entity list is missing.
\<close>

record odata_service =
  svc_id :: string
  svc_title :: string
  svc_description :: string
  svc_url :: string
  svc_version :: string
  svc_entityTypes :: "entity_type list option"

subsection \<open>categorizeServices\<close>

definition any_includes :: "string \<Rightarrow> string list \<Rightarrow> bool" where
  "any_includes t qs = list_ex (str_includes t) qs"

definition categorize :: "odata_service \<Rightarrow> string list" where
  "categorize service =
     (let ident = toLowerCase (svc_id service);
          title = toLowerCase (svc_title service);
          desc = toLowerCase (svc_description service);
          categories =
            (if any_includes ident [''business_partner'', ''bp_'', ''customer'', ''supplier''] \<or>
                any_includes title [''business partner'', ''customer'', ''supplier'']
             then [''business-partner''] else []) @
            (if any_includes ident [''sales'', ''order'', ''quotation'', ''opportunity''] \<or>
                any_includes title [''sales'', ''order''] \<or> str_includes desc ''sales''
             then [''sales''] else []) @
            (if any_includes ident [''finance'', ''accounting'', ''payment'', ''invoice'',
                                    ''gl_'', ''ar_'', ''ap_''] \<or>
                any_includes title [''finance'', ''accounting'', ''payment'']
             then [''finance''] else []) @
            (if any_includes ident [''purchase'', ''procurement'', ''vendor'', ''po_''] \<or>
                any_includes title [''procurement'', ''purchase'', ''vendor'']
             then [''procurement''] else []) @
            (if any_includes ident [''employee'', ''hr_'', ''personnel'', ''payroll''] \<or>
                any_includes title [''employee'', ''human'', ''personnel'']
             then [''hr''] else []) @
            (if any_includes ident [''logistics'', ''warehouse'', ''inventory'', ''material'',
                                    ''wm_'', ''mm_''] \<or>
                any_includes title [''logistics'', ''material'']
             then [''logistics''] else [])
      in if categories = [] then [''all''] else categories)"

text \<open>
  The registry's \<^verbatim>\<open>serviceCategories\<close> map after the constructor has run: a later
  service with the same id overwrites an earlier one.
\<close>

fun categorizeServices :: "odata_service list \<Rightarrow> (string \<rightharpoonup> string list) \<Rightarrow> (string \<rightharpoonup> string list)" where
  "categorizeServices [] m = m"
| "categorizeServices (s # ss) m = categorizeServices ss (m(svc_id s \<mapsto> categorize s))"

definition serviceCategories :: "odata_service list \<Rightarrow> (string \<rightharpoonup> string list)" where
  "serviceCategories services = categorizeServices services Map.empty"

section \<open>Discovery\<close>

datatype search_mode = Combined | Separated

definition matchesQuery :: "string \<Rightarrow> string \<Rightarrow> search_mode \<Rightarrow> bool" where
  "matchesQuery text query searchMode =
     (if query = [] then False
      else let textLower = toLowerCase text in
        (case searchMode of
           Combined \<Rightarrow> str_includes textLower query
         | Separated \<Rightarrow>
             (let ws = js_words [] query in
              if length ws = 0 then False
              else if length ws = 1 then str_includes textLower (hd ws)
              else list_all (str_includes textLower) ws)))"

subsection \<open>Match records\<close>

record schema_property =
  sp_name :: string
  sp_type :: string
  sp_nullable :: bool
  sp_maxLength :: "string option"
  sp_isKey :: bool

record capabilities =
  readable :: bool
  cap_creatable :: bool
  cap_updatable :: bool
  cap_deletable :: bool

record entity_schema =
  es_name :: string
  es_entitySet :: "string option"
  es_keyProperties :: "string list"
  es_propertyCount :: nat
  es_capabilities :: capabilities
  es_properties :: "schema_property list"

datatype match_type = TService | TEntity | TProperty

datatype match_reason =
    ServiceMatches string
  | ServiceInCategory string
  | EntityMatches string string
  | PropertiesMatch "string list" string

text \<open>
  A match as \<^verbatim>\<open>performCategorySearch\<close> pushes it. A service match carries
  \<open>m_entities\<close> (and the description, entity count and categories of its service),
  an entity or property match carries \<open>m_entity\<close>; the field the object literal does not
  set is \<open>None\<close>.
\<close>

record match =
  m_type :: match_type
  m_score :: rat
  m_service_id :: string
  m_service_title :: string
  m_service_description :: "string option"
  m_service_entityCount :: "nat option"
  m_service_categories :: "string list option"
  m_entities :: "entity_schema list option"
  m_entity :: "entity_schema option"
  m_matchReason :: match_reason

definition schema_of_property :: "entity_type \<Rightarrow> property \<Rightarrow> schema_property" where
  "schema_of_property entity prop =
     \<lparr> sp_name = prop_name prop, sp_type = prop_type prop, sp_nullable = prop_nullable prop,
       sp_maxLength = prop_maxLength prop, sp_isKey = (prop_name prop \<in> set (ent_keys entity)) \<rparr>"

definition schema_of_entity :: "entity_type \<Rightarrow> entity_schema" where
  "schema_of_entity entity =
     \<lparr> es_name = ent_name entity, es_entitySet = ent_entitySet entity,
       es_keyProperties = ent_keys entity, es_propertyCount = length (ent_properties entity),
       es_capabilities = \<lparr> readable = True, cap_creatable = creatable entity,
                           cap_updatable = updatable entity, cap_deletable = deletable entity \<rparr>,
       es_properties = map (schema_of_property entity) (ent_properties entity) \<rparr>"

subsection \<open>performCategorySearch\<close>

definition serviceScore :: "odata_service \<Rightarrow> string \<Rightarrow> search_mode \<Rightarrow> rat" where
  "serviceScore service query searchMode =
     (if query \<noteq> [] then
        (if matchesQuery (toLowerCase (svc_id service)) query searchMode then 0.9
         else if matchesQuery (toLowerCase (svc_title service)) query searchMode then 0.85
         else if matchesQuery (toLowerCase (svc_description service)) query searchMode then 0.7
         else 0)
      else 0)"

definition service_match ::
  "(string \<rightharpoonup> string list) \<Rightarrow> odata_service \<Rightarrow> string \<Rightarrow> string \<Rightarrow> search_mode \<Rightarrow> match list" where
  "service_match cats service query category searchMode =
     (let sc = serviceScore service query searchMode in
      if sc > 0 \<or> query = [] then
        [\<lparr> m_type = TService,
           m_score = (if sc = 0 then 0.5 else sc),
           m_service_id = svc_id service,
           m_service_title = svc_title service,
           m_service_description = Some (svc_description service),
           m_service_entityCount =
             Some (case svc_entityTypes service of None \<Rightarrow> 0 | Some ets \<Rightarrow> length ets),
           m_service_categories =
             Some (case cats (svc_id service) of None \<Rightarrow> [] | Some cs \<Rightarrow> cs),
           m_entities =
             Some (case svc_entityTypes service of None \<Rightarrow> []
                   | Some ets \<Rightarrow> map schema_of_entity ets),
           m_entity = None,
           m_matchReason = (if sc > 0 then ServiceMatches query else ServiceInCategory category) \<rparr>]
      else [])"

definition matchedProperties :: "entity_type \<Rightarrow> string \<Rightarrow> search_mode \<Rightarrow> string list" where
  "matchedProperties entity query searchMode =
     map prop_name
       (filter (\<lambda>prop. matchesQuery (toLowerCase (prop_name prop)) query searchMode)
          (ent_properties entity))"

definition entityScore :: "entity_type \<Rightarrow> string \<Rightarrow> search_mode \<Rightarrow> rat" where
  "entityScore entity query searchMode =
     (if matchesQuery (toLowerCase (ent_name entity)) query searchMode then 0.95
      else if matchedProperties entity query searchMode \<noteq> [] then 0.75
      else 0)"

definition entity_match :: "odata_service \<Rightarrow> string \<Rightarrow> search_mode \<Rightarrow> entity_type \<Rightarrow> match list" where
  "entity_match service query searchMode entity =
     (let sc = entityScore entity query searchMode in
      if sc > 0 then
        [\<lparr> m_type = (if sc \<ge> 0.9 then TEntity else TProperty),
           m_score = sc,
           m_service_id = svc_id service,
           m_service_title = svc_title service,
           m_service_description = None,
           m_service_entityCount = None,
           m_service_categories = None,
           m_entities = None,
           m_entity = Some (schema_of_entity entity),
           m_matchReason =
             (if sc \<ge> 0.9 then EntityMatches (ent_name entity) query
              else PropertiesMatch (matchedProperties entity query searchMode) query) \<rparr>]
      else [])"

definition entity_matches :: "odata_service \<Rightarrow> string \<Rightarrow> search_mode \<Rightarrow> match list" where
  "entity_matches service query searchMode =
     (case svc_entityTypes service of
        None \<Rightarrow> []
      | Some ets \<Rightarrow>
          if query \<noteq> [] then concat (map (entity_match service query searchMode) ets) else [])"

definition in_category :: "(string \<rightharpoonup> string list) \<Rightarrow> string \<Rightarrow> odata_service \<Rightarrow> bool" where
  "in_category cats category service =
     (category = ''all'' \<or>
      category \<in> set (case cats (svc_id service) of None \<Rightarrow> [] | Some cs \<Rightarrow> cs))"

text \<open>The loop over \<^verbatim>\<open>this.discoveredServices\<close>, pushing matches in catalog order.\<close>

fun search_loop ::
  "(string \<rightharpoonup> string list) \<Rightarrow> string \<Rightarrow> string \<Rightarrow> search_mode \<Rightarrow> odata_service list \<Rightarrow> match list" where
  "search_loop cats query category searchMode [] = []"
| "search_loop cats query category searchMode (service # rest) =
     (if \<not> in_category cats category service
      then search_loop cats query category searchMode rest
      else service_match cats service query category searchMode @
           entity_matches service query searchMode @
           search_loop cats query category searchMode rest)"

definition performCategorySearch ::
  "odata_service list \<Rightarrow> string \<Rightarrow> string \<Rightarrow> search_mode \<Rightarrow> match list" where
  "performCategorySearch services query category searchMode =
     search_loop (serviceCategories services) query category searchMode services"

subsection \<open>The tiers of searchServicesAndEntities\<close>

text \<open>
  Every fallback level of \<^verbatim>\<open>searchServicesAndEntities\<close> writes one debug line to the
  logger before it searches again; \<open>st_log\<close> records these lines in order, one
  constructor per message.
\<close>

datatype tier_event =
    TrySeparatedSameCategory
  | RetryAllCategories
  | TrySeparatedAllCategories
  | ReturnAllServices

record search_state =
  st_matches :: "match list"
  st_category :: string
  st_searchMode :: search_mode
  st_usedCategoryFallback :: bool
  st_usedSeparatedWords :: bool
  st_returnedAllServices :: bool
  st_log :: "tier_event list"

definition level1 :: "odata_service list \<Rightarrow> string \<Rightarrow> string \<Rightarrow> search_state" where
  "level1 services query category =
     \<lparr> st_matches = performCategorySearch services query category Combined,
       st_category = category, st_searchMode = Combined, st_usedCategoryFallback = False,
       st_usedSeparatedWords = False, st_returnedAllServices = False, st_log = [] \<rparr>"

definition level2 :: "odata_service list \<Rightarrow> string \<Rightarrow> search_state \<Rightarrow> search_state" where
  "level2 services query st =
     (if st_matches st = [] \<and> query \<noteq> [] \<and> str_includes query '' '' then
        st\<lparr> st_log := st_log st @ [TrySeparatedSameCategory],
            st_searchMode := Separated,
            st_usedSeparatedWords := True,
            st_matches := performCategorySearch services query (st_category st) Separated \<rparr>
      else st)"

definition level3 :: "odata_service list \<Rightarrow> string \<Rightarrow> search_state \<Rightarrow> search_state" where
  "level3 services query st =
     (if st_matches st = [] \<and> st_category st \<noteq> ''all'' \<and> query \<noteq> [] then
        (let st1 = st\<lparr> st_log := st_log st @ [RetryAllCategories],
                        st_category := ''all'',
                        st_usedCategoryFallback := True,
                        st_matches := performCategorySearch services query ''all'' Combined,
                        st_searchMode := Combined,
                        st_usedSeparatedWords := False \<rparr>
         in if st_matches st1 = [] \<and> str_includes query '' '' then
              st1\<lparr> st_log := st_log st1 @ [TrySeparatedAllCategories],
                   st_searchMode := Separated,
                   st_usedSeparatedWords := True,
                   st_matches := performCategorySearch services query ''all'' Separated \<rparr>
            else st1)
      else st)"

definition level5 :: "odata_service list \<Rightarrow> string \<Rightarrow> search_state \<Rightarrow> search_state" where
  "level5 services query st =
     (if st_matches st = [] \<and> query \<noteq> [] then
        st\<lparr> st_log := st_log st @ [ReturnAllServices],
            st_matches := performCategorySearch services [] (st_category st) Combined,
            st_returnedAllServices := True,
            st_usedCategoryFallback := True \<rparr>
      else st)"

definition run_tiers :: "odata_service list \<Rightarrow> string \<Rightarrow> string \<Rightarrow> search_state" where
  "run_tiers services query category =
     level5 services query
       (level3 services query (level2 services query (level1 services query category)))"

subsection \<open>Sorting, truncation and the mapping table\<close>

text \<open>
  \<^verbatim>\<open>Array.prototype.sort\<close> with a comparator, which ECMAScript 2019 requires to be
  stable: an element goes in front of the first element it does not compare greater than.
  \<open>slice0 xs n\<close> is \<^verbatim>\<open>xs.slice(0, n)\<close>: the end is truncated toward zero
  (\<open>js_trunc\<close>), and a negative end counts from the end of the array.
\<close>

fun insert_sorted :: "('a \<Rightarrow> 'a \<Rightarrow> rat) \<Rightarrow> 'a \<Rightarrow> 'a list \<Rightarrow> 'a list" where
  "insert_sorted cmp x [] = [x]"
| "insert_sorted cmp x (y # ys) =
     (if cmp x y \<le> 0 then x # y # ys else y # insert_sorted cmp x ys)"

fun js_sort :: "('a \<Rightarrow> 'a \<Rightarrow> rat) \<Rightarrow> 'a list \<Rightarrow> 'a list" where
  "js_sort cmp [] = []"
| "js_sort cmp (x # xs) = insert_sorted cmp x (js_sort cmp xs)"

definition sortMatches :: "match list \<Rightarrow> match list" where
  "sortMatches matches = js_sort (\<lambda>a b. m_score b - m_score a) matches"

definition js_trunc :: "rat \<Rightarrow> int" where
  "js_trunc x = (if 0 \<le> x then \<lfloor>x\<rfloor> else \<lceil>x\<rceil>)"

definition slice0 :: "'a list \<Rightarrow> rat \<Rightarrow> 'a list" where
  "slice0 xs n =
     (let k = js_trunc n
      in if k < 0 then take (nat (int (length xs) + k)) xs else take (nat k) xs)"

record mapping_row =
  row_serviceId :: string
  row_serviceName :: string
  row_entityName :: string
  row_entitySet :: "string option"
  row_propertyName :: string
  row_propertyType :: string
  row_isKey :: bool
  row_nullable :: bool
  row_maxLength :: string
  row_capabilities :: string

definition yn :: "bool \<Rightarrow> string" where
  "yn b = (if b then ''Y'' else ''N'')"

definition capabilities_text :: "capabilities \<Rightarrow> string" where
  "capabilities_text c =
     ''R:'' @ yn (readable c) @ '' C:'' @ yn (cap_creatable c) @
     '' U:'' @ yn (cap_updatable c) @ '' D:'' @ yn (cap_deletable c)"

definition row_of :: "match \<Rightarrow> entity_schema \<Rightarrow> schema_property \<Rightarrow> mapping_row" where
  "row_of m entity prop =
     \<lparr> row_serviceId = m_service_id m,
       row_serviceName = m_service_title m,
       row_entityName = es_name entity,
       row_entitySet = es_entitySet entity,
       row_propertyName = sp_name prop,
       row_propertyType = sp_type prop,
       row_isKey = sp_isKey prop,
       row_nullable = sp_nullable prop,
       row_maxLength = (case sp_maxLength prop of None \<Rightarrow> ''N/A''
                        | Some l \<Rightarrow> if l = [] then ''N/A'' else l),
       row_capabilities = capabilities_text (es_capabilities entity) \<rparr>"

definition entity_rows :: "match \<Rightarrow> entity_schema \<Rightarrow> mapping_row list" where
  "entity_rows m entity = map (row_of m entity) (es_properties entity)"

definition match_rows :: "match \<Rightarrow> mapping_row list" where
  "match_rows m =
     (case (m_type m, m_entities m, m_entity m) of
        (TService, Some entities, _) \<Rightarrow> concat (map (entity_rows m) entities)
      | (TService, None, _) \<Rightarrow> []
      | (_, _, Some entity) \<Rightarrow> entity_rows m entity
      | (_, _, None) \<Rightarrow> [])"

fun convertToMappingTable :: "match list \<Rightarrow> mapping_row list" where
  "convertToMappingTable [] = []"
| "convertToMappingTable (m # ms) = match_rows m @ convertToMappingTable ms"

subsection \<open>searchServicesAndEntities\<close>

record discover_args =
  arg_query :: "string option"
  arg_category :: "string option"
  arg_limit :: "rat option"

definition validCategories :: "string list" where
  "validCategories =
     [''business-partner'', ''sales'', ''finance'', ''procurement'', ''hr'', ''logistics'', ''all'']"

definition query_of :: "discover_args \<Rightarrow> string" where
  "query_of args = (case arg_query args of None \<Rightarrow> [] | Some q \<Rightarrow> toLowerCase q)"

definition requestedCategory_of :: "discover_args \<Rightarrow> string" where
  "requestedCategory_of args =
     (case arg_category args of
        None \<Rightarrow> ''all''
      | Some c \<Rightarrow> if toLowerCase c = [] then ''all'' else toLowerCase c)"

definition limit_of :: "discover_args \<Rightarrow> rat" where
  "limit_of args = (case arg_limit args of None \<Rightarrow> 10 | Some n \<Rightarrow> if n = 0 then 10 else n)"

definition category_of :: "discover_args \<Rightarrow> string" where
  "category_of args =
     (if requestedCategory_of args \<in> set validCategories then requestedCategory_of args
      else ''all'')"

definition tiers_of :: "odata_service list \<Rightarrow> discover_args \<Rightarrow> search_state" where
  "tiers_of services args = run_tiers services (query_of args) (category_of args)"

definition limitedMatches :: "odata_service list \<Rightarrow> discover_args \<Rightarrow> match list" where
  "limitedMatches services args =
     slice0 (sortMatches (st_matches (tiers_of services args))) (limit_of args)"

record discovery_result =
  r_query :: string
  r_requestedCategory :: string
  r_actualCategory :: string
  r_searchMode :: search_mode
  r_usedCategoryFallback :: bool
  r_usedSeparatedWords :: bool
  r_returnedAllServices :: bool
  r_totalFound :: nat
  r_totalProperties :: nat
  r_showing :: nat
  r_mappingTable :: "mapping_row list"

definition search_result :: "odata_service list \<Rightarrow> discover_args \<Rightarrow> discovery_result" where
  "search_result services args =
     (let st = tiers_of services args;
          limited = limitedMatches services args;
          mappingTable = convertToMappingTable limited
      in \<lparr> r_query = (if query_of args = [] then ''all'' else query_of args),
           r_requestedCategory = requestedCategory_of args,
           r_actualCategory = st_category st,
           r_searchMode = st_searchMode st,
           r_usedCategoryFallback = st_usedCategoryFallback st,
           r_usedSeparatedWords = st_usedSeparatedWords st,
           r_returnedAllServices = st_returnedAllServices st,
           r_totalFound = length (st_matches st),
           r_totalProperties = length mappingTable,
           r_showing = length limited,
           r_mappingTable = mappingTable \<rparr>)"

text \<open>
  The response: the guidance text with the result as JSON when the mapping table has a
  row, and otherwise the text \<^verbatim>\<open>No matches found\<close> naming the query and the requested
  category. The function has no path that throws.
\<close>

datatype discover_response =
    Guidance discovery_result
  | NoMatchesFound string string

definition searchServicesAndEntities :: "odata_service list \<Rightarrow> discover_args \<Rightarrow> discover_response" where
  "searchServicesAndEntities services args =
     (let result = search_result services args in
      if r_mappingTable result \<noteq> [] then Guidance result
      else NoMatchesFound (query_of args) (requestedCategory_of args))"

section \<open>The operation dispatcher\<close>

record execute_args =
  x_serviceId :: string
  x_entityName :: string
  x_operation :: "string option"
  x_parameters :: "js_object option"
  x_filterString :: "string option"
  x_selectString :: "string option"
  x_expandString :: "string option"
  x_orderbyString :: "string option"
  x_topNumber :: "jsval option"
  x_skipNumber :: "jsval option"
  x_queryOptions :: "js_object option"
  x_useUserToken :: "bool option"

text \<open>
  The code throws plain \<^verbatim>\<open>Error\<close> objects; the constructors name the kinds of the
  specification's taxonomy and \<open>message\<close> gives the text the code puts into each.
\<close>

datatype exec_error =
    InvalidOperation "string option"
  | CapabilityError string string
  | MissingKeyProperty string "string list"
  | UnsupportedOperation string
  | UpstreamError string

definition validOperations :: "string list" where
  "validOperations = [''read'', ''read-single'', ''create'', ''update'', ''delete'']"

fun message :: "exec_error \<Rightarrow> string" where
  "message (InvalidOperation operation) =
     ''Invalid operation: '' @ (case operation of None \<Rightarrow> ''undefined'' | Some op \<Rightarrow> op) @
     ''. Valid operations are: '' @ join '', '' validOperations"
| "message (CapabilityError entityName operation) =
     ''Entity '' @ [CHR 0x27] @ entityName @ [CHR 0x27] @ '' does not support '' @ operation @
     '' operations''"
| "message (MissingKeyProperty keyName keys) =
     ''Missing required key property: '' @ keyName @ ''. Required keys: '' @ join '', '' keys"
| "message (UnsupportedOperation operation) = ''Unsupported operation: '' @ operation"
| "message (UpstreamError msg) = msg"

subsection \<open>buildKeyValue\<close>

text \<open>
  The key properties are the entity's properties whose name is one of the keys, in the
  order of the property list. A key is missing when \<^verbatim>\<open>name in parameters\<close> is false,
  that is when \<open>js_get parameters name = None\<close>.
\<close>

definition keyProperties :: "entity_type \<Rightarrow> property list" where
  "keyProperties entityType =
     filter (\<lambda>p. prop_name p \<in> set (ent_keys entityType)) (ent_properties entityType)"

fun keyParts :: "entity_type \<Rightarrow> js_object \<Rightarrow> property list \<Rightarrow> exec_error + string list" where
  "keyParts entityType parameters [] = Inr []"
| "keyParts entityType parameters (prop # props) =
     (case js_get parameters (prop_name prop) of
        None \<Rightarrow> Inl (MissingKeyProperty (prop_name prop) (ent_keys entityType))
      | Some v \<Rightarrow>
          (case keyParts entityType parameters props of
             Inl e \<Rightarrow> Inl e
           | Inr parts \<Rightarrow>
               Inr ((prop_name prop @ ''='' @ [CHR 0x27] @ js_String v @ [CHR 0x27]) # parts)))"

definition buildKeyValue :: "entity_type \<Rightarrow> js_object \<Rightarrow> exec_error + string" where
  "buildKeyValue entityType parameters =
     (case keyProperties entityType of
        [prop] \<Rightarrow>
          (case js_get parameters (prop_name prop) of
             None \<Rightarrow> Inl (MissingKeyProperty (prop_name prop) (ent_keys entityType))
           | Some v \<Rightarrow> Inr (js_String v))
      | props \<Rightarrow>
          (case keyParts entityType parameters props of
             Inl e \<Rightarrow> Inl e
           | Inr parts \<Rightarrow> Inr (join '','' parts)))"

subsection \<open>executeEntityOperation\<close>

text \<open>
  The calls the dispatcher makes on its \<^verbatim>\<open>sapClient\<close>, in order. \<open>SetUserToken\<close>
  only stores the token in the client; the other five are the network operations. The
  client is a parameter: it answers a network call with the message of the error it
  throws (\<open>Inl\<close>) or with the \<^verbatim>\<open>data\<close> of its response (\<open>Inr\<close>).
\<close>

datatype client_call =
    SetUserToken "string option"
  | ReadEntitySet string "string option" js_object bool
  | ReadEntity string "string option" string bool
  | CreateEntity string "string option" js_object
  | UpdateEntity string "string option" string js_object
  | DeleteEntity string "string option" string

fun is_network_call :: "client_call \<Rightarrow> bool" where
  "is_network_call (SetUserToken t) = False"
| "is_network_call c = True"

datatype op_description =
    Reading string "jsval option" "jsval option"
  | ReadingSingle string string
  | Creating string
  | Updating string string
  | Deleting string string

datatype 'r response_data = Data 'r | DeleteAck string string

datatype 'r exec_result =
    ServiceNotFound string "string option"
  | EntityNotFound string string
  | Failed "string option" string exec_error
  | Success op_description "'r response_data"

definition put_if :: "string \<Rightarrow> jsval option \<Rightarrow> js_object \<Rightarrow> js_object" where
  "put_if k v obj = (case v of None \<Rightarrow> obj | Some w \<Rightarrow> if truthy w then obj(k \<mapsto> w) else obj)"

definition build_queryOptions :: "execute_args \<Rightarrow> js_object" where
  "build_queryOptions args =
     (let q1 = put_if ''$filter'' (map_option JStr (x_filterString args)) Map.empty;
          q2 = put_if ''$select'' (map_option JStr (x_selectString args)) q1;
          q3 = put_if ''$expand'' (map_option JStr (x_expandString args)) q2;
          q4 = put_if ''$orderby'' (map_option JStr (x_orderbyString args)) q3;
          q5 = put_if ''$top'' (x_topNumber args) q4;
          q6 = put_if ''$skip'' (x_skipNumber args) q5
      in case x_queryOptions args of None \<Rightarrow> q6 | Some legacy \<Rightarrow> q6 ++ legacy)"

definition if_truthy :: "jsval option \<Rightarrow> jsval option" where
  "if_truthy v = (case v of None \<Rightarrow> None | Some w \<Rightarrow> if truthy w then Some w else None)"

definition call_client ::
  "(client_call \<Rightarrow> string + 'r) \<Rightarrow> client_call \<Rightarrow> exec_error + 'r" where
  "call_client client c = (case client c of Inl msg \<Rightarrow> Inl (UpstreamError msg) | Inr r \<Rightarrow> Inr r)"

text \<open>
  The \<^verbatim>\<open>switch\<close> on the operation: the network calls made, and the thrown error or the
  description and response.
\<close>

definition dispatch ::
  "(client_call \<Rightarrow> string + 'r) \<Rightarrow> odata_service \<Rightarrow> entity_type \<Rightarrow> string \<Rightarrow> string \<Rightarrow>
   js_object \<Rightarrow> js_object \<Rightarrow> client_call list \<times> (exec_error + op_description \<times> 'r response_data)" where
  "dispatch client service entityType entityName operation parameters queryOptions =
     (if operation = ''read'' then
        (let c = ReadEntitySet (svc_url service) (ent_entitySet entityType) queryOptions False
         in ([c], case call_client client c of
                    Inl e \<Rightarrow> Inl e
                  | Inr r \<Rightarrow> Inr (Reading entityName (if_truthy (queryOptions ''$top''))
                                    (if_truthy (queryOptions ''$filter'')), Data r)))
      else if operation = ''read-single'' then
        (case buildKeyValue entityType parameters of
           Inl e \<Rightarrow> ([], Inl e)
         | Inr keyValue \<Rightarrow>
             (let c = ReadEntity (svc_url service) (ent_entitySet entityType) keyValue False
              in ([c], case call_client client c of
                         Inl e \<Rightarrow> Inl e
                       | Inr r \<Rightarrow> Inr (ReadingSingle entityName keyValue, Data r))))
      else if operation = ''create'' then
        (if \<not> creatable entityType then ([], Inl (CapabilityError entityName ''create''))
         else
           (let c = CreateEntity (svc_url service) (ent_entitySet entityType) parameters
            in ([c], case call_client client c of
                       Inl e \<Rightarrow> Inl e
                     | Inr r \<Rightarrow> Inr (Creating entityName, Data r))))
      else if operation = ''update'' then
        (if \<not> updatable entityType then ([], Inl (CapabilityError entityName ''update''))
         else
           (case buildKeyValue entityType parameters of
              Inl e \<Rightarrow> ([], Inl e)
            | Inr updateKeyValue \<Rightarrow>
                (let updateData = parameters |` (- set (ent_keys entityType));
                     c = UpdateEntity (svc_url service) (ent_entitySet entityType)
                           updateKeyValue updateData
                 in ([c], case call_client client c of
                            Inl e \<Rightarrow> Inl e
                          | Inr r \<Rightarrow> Inr (Updating entityName updateKeyValue, Data r)))))
      else if operation = ''delete'' then
        (if \<not> deletable entityType then ([], Inl (CapabilityError entityName ''delete''))
         else
           (case buildKeyValue entityType parameters of
              Inl e \<Rightarrow> ([], Inl e)
            | Inr deleteKeyValue \<Rightarrow>
                (let c = DeleteEntity (svc_url service) (ent_entitySet entityType) deleteKeyValue
                 in ([c], case call_client client c of
                            Inl e \<Rightarrow> Inl e
                          | Inr r \<Rightarrow> Inr (Deleting entityName deleteKeyValue,
                                          DeleteAck entityName deleteKeyValue)))))
      else ([], Inl (UnsupportedOperation operation)))"

definition find_entity :: "odata_service \<Rightarrow> string \<Rightarrow> entity_type option" where
  "find_entity service entityName =
     (case svc_entityTypes service of
        None \<Rightarrow> None
      | Some ets \<Rightarrow> find (\<lambda>e. ent_name e = entityName) ets)"

definition token_for :: "string option \<Rightarrow> execute_args \<Rightarrow> string option" where
  "token_for userToken args =
     (let useUserToken = (case x_useUserToken args of None \<Rightarrow> True | Some b \<Rightarrow> b)
      in if useUserToken \<and> userToken \<noteq> None \<and> userToken \<noteq> Some [] then userToken else None)"

text \<open>
  \<open>executeEntityOperation services userToken client args\<close>: the registry's catalog and
  stored user token, the client, and the tool arguments. The result is the list of calls
  made on the client and the response. The two not-found responses are returned, every
  thrown error is caught and reported as \<open>Failed\<close> with the caller's own
  \<^verbatim>\<open>args.operation\<close> and \<^verbatim>\<open>args.entityName\<close>.
\<close>

definition executeEntityOperation ::
  "odata_service list \<Rightarrow> string option \<Rightarrow> (client_call \<Rightarrow> string + 'r) \<Rightarrow> execute_args \<Rightarrow>
   client_call list \<times> 'r exec_result" where
  "executeEntityOperation services userToken client args =
     (let serviceId = x_serviceId args;
          entityName = x_entityName args;
          operation = map_option toLowerCase (x_operation args);
          parameters = (case x_parameters args of None \<Rightarrow> Map.empty | Some p \<Rightarrow> p)
      in case operation of
           None \<Rightarrow> ([], Failed (x_operation args) entityName (InvalidOperation operation))
         | Some op \<Rightarrow>
             if op \<notin> set validOperations
             then ([], Failed (x_operation args) entityName (InvalidOperation operation))
             else
               (case find (\<lambda>s. svc_id s = serviceId) services of
                  None \<Rightarrow>
                    ([], ServiceNotFound serviceId
                           (map_option svc_id
                              (find (\<lambda>s. toLowerCase (svc_title s) = toLowerCase serviceId)
                                 services)))
                | Some service \<Rightarrow>
                    (case find_entity service entityName of
                       None \<Rightarrow> ([], EntityNotFound entityName serviceId)
                     | Some entityType \<Rightarrow>
                         (case dispatch client service entityType entityName op parameters
                                 (build_queryOptions args) of
                            (calls, Inl e) \<Rightarrow>
                              (SetUserToken (token_for userToken args) # calls,
                               Failed (x_operation args) entityName e)
                          | (calls, Inr (description, data)) \<Rightarrow>
                              (SetUserToken (token_for userToken args) # calls,
                               Success description data)))))"

section \<open>The destination service\<close>

text \<open>
  The process environment as \<^verbatim>\<open>getDestination\<close> reads it: the value of
  \<^verbatim>\<open>process.env.destinations || process.env.DESTINATIONS\<close> after
  \<^verbatim>\<open>JSON.parse\<close> (\<open>Unset\<close> when absent or empty, \<open>Malformed\<close> when parsing or
  searching it throws, which the code catches), and \<^verbatim>\<open>process.env.USER_JWT\<close>.
  \<open>cfg\<close> is \<^verbatim>\<open>Config.get(key, default)\<close> and \<open>sdk\<close> is the Cloud SDK's
  \<^verbatim>\<open>getDestination({destinationName, jwt})\<close>, both parameters: \<open>sdk\<close> answers with
  the message of the error it throws, with \<open>None\<close> for \<^verbatim>\<open>null\<close>, or with a
  destination.
\<close>

record env_destination =
  d_name :: string
  d_url :: string
  d_username :: string
  d_password :: string

datatype env_value = Unset | Malformed | Destinations "env_destination list"

record environment =
  env_destinations :: env_value
  env_USER_JWT :: "string option"

record http_destination =
  dest_url :: string
  dest_username :: "string option"
  dest_password :: "string option"
  dest_authentication :: "string option"

datatype dest_error = DestinationNotFound string | LookupFailed string

datatype sdk_lookup = SdkLookup string "string option"

definition basic_destination :: "env_destination \<Rightarrow> http_destination" where
  "basic_destination d =
     \<lparr> dest_url = d_url d, dest_username = Some (d_username d),
       dest_password = Some (d_password d),
       dest_authentication = Some ''BasicAuthentication'' \<rparr>"

definition from_environment :: "environment \<Rightarrow> string \<Rightarrow> http_destination option" where
  "from_environment env destinationName =
     (case env_destinations env of
        Destinations ds \<Rightarrow>
          (case find (\<lambda>d. d_name d = destinationName) ds of
             Some envDest \<Rightarrow> Some (basic_destination envDest)
           | None \<Rightarrow>
               (case ds of [single] \<Rightarrow> Some (basic_destination single) | _ \<Rightarrow> None))
      | _ \<Rightarrow> None)"

definition getJWT :: "environment \<Rightarrow> string option" where
  "getJWT env = (case env_USER_JWT env of None \<Rightarrow> None | Some t \<Rightarrow> if t = [] then None else Some t)"

text \<open>
  \<open>getDestination\<close> returns the managed lookups it made, each with the token it
  attached, and the destination or the error it throws.
\<close>

definition getDestination ::
  "environment \<Rightarrow> (string \<Rightarrow> string option \<Rightarrow> string + http_destination option) \<Rightarrow>
   string \<Rightarrow> string option \<Rightarrow> sdk_lookup list \<times> (dest_error + http_destination)" where
  "getDestination env sdk destinationName jwtToken =
     (case from_environment env destinationName of
        Some d \<Rightarrow> ([], Inr d)
      | None \<Rightarrow>
          (let jwt = (if jwtToken \<noteq> None \<and> jwtToken \<noteq> Some [] then jwtToken else getJWT env)
           in ([SdkLookup destinationName jwt],
               case sdk destinationName jwt of
                 Inl msg \<Rightarrow> Inl (LookupFailed msg)
               | Inr None \<Rightarrow> Inl (DestinationNotFound destinationName)
               | Inr (Some d) \<Rightarrow> Inr d)))"

definition discoveryDestinationName :: "(string \<Rightarrow> string \<Rightarrow> string) \<Rightarrow> string" where
  "discoveryDestinationName cfg =
     cfg ''sap.discoveryDestinationName'' (cfg ''sap.destinationName'' ''SAP_SYSTEM'')"

definition executionDestinationName :: "(string \<Rightarrow> string \<Rightarrow> string) \<Rightarrow> string" where
  "executionDestinationName cfg =
     cfg ''sap.executionDestinationName'' (cfg ''sap.destinationName'' ''SAP_SYSTEM'')"

definition getDiscoveryDestination ::
  "(string \<Rightarrow> string \<Rightarrow> string) \<Rightarrow> environment \<Rightarrow>
   (string \<Rightarrow> string option \<Rightarrow> string + http_destination option) \<Rightarrow>
   sdk_lookup list \<times> (dest_error + http_destination)" where
  "getDiscoveryDestination cfg env sdk =
     getDestination env sdk (discoveryDestinationName cfg) None"

definition getExecutionDestination ::
  "(string \<Rightarrow> string \<Rightarrow> string) \<Rightarrow> environment \<Rightarrow>
   (string \<Rightarrow> string option \<Rightarrow> string + http_destination option) \<Rightarrow> string option \<Rightarrow>
   sdk_lookup list \<times> (dest_error + http_destination)" where
  "getExecutionDestination cfg env sdk jwtToken =
     getDestination env sdk (executionDestinationName cfg) jwtToken"

section \<open>Auxiliary notions for the properties\<close>

text \<open>
  The entity schemas a match carries into \<^verbatim>\<open>convertToMappingTable\<close>, by the same
  tests on \<^verbatim>\<open>match.type\<close>, \<^verbatim>\<open>match.entities\<close> and \<^verbatim>\<open>match.entity\<close>;
  the entity types of a service and of the whole catalog.
\<close>

definition match_entities :: "match \<Rightarrow> entity_schema list" where
  "match_entities m =
     (case (m_type m, m_entities m, m_entity m) of
        (TService, Some entities, _) \<Rightarrow> entities
      | (TService, None, _) \<Rightarrow> []
      | (_, _, Some entity) \<Rightarrow> [entity]
      | (_, _, None) \<Rightarrow> [])"

definition entityTypes_of :: "odata_service \<Rightarrow> entity_type list" where
  "entityTypes_of s = (case svc_entityTypes s of None \<Rightarrow> [] | Some ets \<Rightarrow> ets)"

definition catalog_entities :: "odata_service list \<Rightarrow> entity_type list" where
  "catalog_entities services = concat (map entityTypes_of services)"

definition from_search :: "odata_service list \<Rightarrow> search_state \<Rightarrow> bool" where
  "from_search services st =
     (\<exists>q c mode. st_matches st = performCategorySearch services q c mode)"

text \<open>
  The tool's input schema for \<^verbatim>\<open>limit\<close>,
  \<^verbatim>\<open>z.number().min(1).max(20).optional()\<close>: no limit, or a number from 1 to 20,
  integral or not.
\<close>

definition limit_in_schema :: "rat option \<Rightarrow> bool" where
  "limit_in_schema l = (case l of None \<Rightarrow> True | Some n \<Rightarrow> 1 \<le> n \<and> n \<le> 20)"

datatype 'a tool_result = ValidationError | Handled 'a

text \<open>
  Modelled from the spec: the check of a tool call's arguments against the registered
  input schema, which the MCP server library makes before it calls the handler and which
  is not among the repository's files. The specification says that discovery reports an
  error only for structurally invalid input, such as a negative limit, and then responds
  with a ValidationError; every other call goes to \<^verbatim>\<open>searchServicesAndEntities\<close>.
\<close>

definition discover_sap_data :: "odata_service list \<Rightarrow> discover_args \<Rightarrow> discover_response tool_result" where
  "discover_sap_data services args =
     (if limit_in_schema (arg_limit args) then Handled (searchServicesAndEntities services args)
      else ValidationError)"

subsection \<open>An example catalog\<close>

text \<open>
  The catalog of the specification's scenarios: service \<^verbatim>\<open>API_BP\<close> with the entity
  \<^verbatim>\<open>Customer\<close>, key \<^verbatim>\<open>ID\<close>, properties \<^verbatim>\<open>ID\<close>, \<^verbatim>\<open>Name\<close> and
  \<^verbatim>\<open>Email\<close>.
\<close>

definition ex_customer :: entity_type where
  "ex_customer =
     \<lparr> ent_name = ''Customer'', ent_entitySet = Some ''Customers'', ent_namespace = ''BP'',
       ent_keys = [''ID''],
       ent_properties =
         [\<lparr> prop_name = ''ID'', prop_type = ''Edm.String'', prop_nullable = False,
            prop_maxLength = Some ''10'' \<rparr>,
          \<lparr> prop_name = ''Name'', prop_type = ''Edm.String'', prop_nullable = True,
            prop_maxLength = None \<rparr>,
          \<lparr> prop_name = ''Email'', prop_type = ''Edm.String'', prop_nullable = True,
            prop_maxLength = None \<rparr>],
       creatable = True, updatable = True, deletable = False \<rparr>"

definition ex_service :: odata_service where
  "ex_service =
     \<lparr> svc_id = ''API_BP'', svc_title = ''Partners'', svc_description = ''Master data'',
       svc_url = ''/sap/API_BP'', svc_version = ''1'', svc_entityTypes = Some [ex_customer] \<rparr>"

definition ex_args :: "string option \<Rightarrow> string option \<Rightarrow> rat option \<Rightarrow> discover_args" where
  "ex_args q c l = \<lparr> arg_query = q, arg_category = c, arg_limit = l \<rparr>"

subsection \<open>Notions for the dispatcher's properties\<close>

text \<open>
  \<open>parameters_of\<close> is \<^verbatim>\<open>args.parameters || {}\<close>. \<open>erase_echo\<close> forgets the
  caller's own spelling of the operation, which a failure response repeats.
  \<open>render_part\<close> is one part of a composite key, from a supplied value.
  \<open>wf_keys\<close> is the catalog invariant on keys: property names and keys are distinct
  and every key is a property name.
  \<open>ex_exec\<close> and \<open>ex_client\<close> are example arguments and an example client.
\<close>

definition parameters_of :: "execute_args \<Rightarrow> js_object" where
  "parameters_of args = (case x_parameters args of None \<Rightarrow> Map.empty | Some p \<Rightarrow> p)"

definition erase_echo :: "'r exec_result \<Rightarrow> 'r exec_result" where
  "erase_echo r = (case r of Failed operation entityName e \<Rightarrow> Failed None entityName e | _ \<Rightarrow> r)"



definition ex_exec :: "string \<Rightarrow> js_object option \<Rightarrow> execute_args" where
  "ex_exec op ps =
     \<lparr> x_serviceId = ''API_BP'', x_entityName = ''Customer'', x_operation = Some op,
       x_parameters = ps, x_filterString = None, x_selectString = None,
       x_expandString = None, x_orderbyString = None, x_topNumber = None,
       x_skipNumber = None, x_queryOptions = None, x_useUserToken = None \<rparr>"

definition ex_client :: "client_call \<Rightarrow> string + jsval" where
  "ex_client c = Inr JNull"




text \<open>The search state after tier 1, after tier 2 and after tier 3 of a discovery call.\<close>

definition after_tier1 :: "odata_service list \<Rightarrow> discover_args \<Rightarrow> search_state" where
  "after_tier1 services args = level1 services (query_of args) (category_of args)"

definition after_tier2 :: "odata_service list \<Rightarrow> discover_args \<Rightarrow> search_state" where
  "after_tier2 services args = level2 services (query_of args) (after_tier1 services args)"

definition after_tier3 :: "odata_service list \<Rightarrow> discover_args \<Rightarrow> search_state" where
  "after_tier3 services args = level3 services (query_of args) (after_tier2 services args)"



definition ex_env :: "string option \<Rightarrow> environment" where
  "ex_env jwt = \<lparr> env_destinations = Unset, env_USER_JWT = jwt \<rparr>"

definition ex_cfg :: "string \<Rightarrow> string \<Rightarrow> string" where
  "ex_cfg key dflt = dflt"

definition ex_sdk :: "string \<Rightarrow> string option \<Rightarrow> string + http_destination option" where
  "ex_sdk destinationName jwt =
     Inr (Some \<lparr> dest_url = (case jwt of None \<Rightarrow> ''https://technical.example''
                               | Some t \<Rightarrow> ''https://user.example''),
                 dest_username = None, dest_password = None, dest_authentication = jwt \<rparr>)"

section \<open>Properties of discovery\<close>

subsection \<open>The sort\<close>

lemma filter_insert_sorted:
  "filter (\<lambda>y. f y = k) (insert_sorted (\<lambda>a b. f b - f a) x ys) = filter (\<lambda>y. f y = k) (x # ys)"
  by (induction ys) auto

lemma filter_js_sort:
  "filter (\<lambda>y. f y = k) (js_sort (\<lambda>a b. f b - f a) xs) = filter (\<lambda>y. f y = k) xs"
  by (induction xs) (simp_all add: filter_insert_sorted)

lemma set_insert_sorted: "set (insert_sorted cmp x ys) = insert x (set ys)"
  by (induction ys) auto

lemma sorted_insert_sorted:
  "sorted_wrt (\<lambda>a b. f b \<le> f a) ys \<Longrightarrow>
   sorted_wrt (\<lambda>a b. f b \<le> f a) (insert_sorted (\<lambda>a b. f b - f a) x ys)"
  by (induction ys) (auto simp: set_insert_sorted)

lemma sorted_js_sort: "sorted_wrt (\<lambda>a b. (f b :: rat) \<le> f a) (js_sort (\<lambda>a b. f b - f a) xs)"
  by (induction xs) (simp_all add: sorted_insert_sorted)

lemma length_insert_sorted: "length (insert_sorted cmp x ys) = Suc (length ys)"
  by (induction ys) auto

lemma length_js_sort: "length (js_sort cmp xs) = length xs"
  by (induction xs) (simp_all add: length_insert_sorted)

lemma set_js_sort: "set (js_sort cmp xs) = set xs"
  by (induction xs) (simp_all add: set_insert_sorted)

text \<open>
  C9. In every discovery call the matches are sorted by score, highest first, and the sort
  is stable: for every score, the matches with that score stand in the sorted list in the
  order in which the search pushed them. The retained matches are a prefix of this list.
\<close>

theorem matches_sorted_by_score_stable:
  "sorted_wrt (\<lambda>a b. m_score b \<le> m_score a) (sortMatches (st_matches (tiers_of services args))) \<and>
   filter (\<lambda>m. m_score m = k) (sortMatches (st_matches (tiers_of services args))) =
     filter (\<lambda>m. m_score m = k) (st_matches (tiers_of services args)) \<and>
   limitedMatches services args =
     slice0 (sortMatches (st_matches (tiers_of services args))) (limit_of args)"
  unfolding sortMatches_def limitedMatches_def
  by (simp add: sorted_js_sort filter_js_sort)

subsection \<open>The mapping table\<close>

lemma match_rows_entities: "match_rows m = concat (map (entity_rows m) (match_entities m))"
  by (simp add: match_rows_def match_entities_def split: match_type.splits option.splits)

lemma convert_concat:
  "convertToMappingTable ms = concat (map (\<lambda>m. concat (map (entity_rows m) (match_entities m))) ms)"
  by (induction ms) (simp_all add: match_rows_entities)

lemma service_match_fields:
  "m \<in> set (service_match cats s q c mode) \<Longrightarrow> m_type m = TService \<and>
    m_entities m = Some (case svc_entityTypes s of None \<Rightarrow> [] | Some ets \<Rightarrow> map schema_of_entity ets)"
  unfolding service_match_def Let_def
  by (cases "0 < serviceScore s q mode \<or> q = []") auto

lemma service_match_entities:
  assumes "m \<in> set (service_match cats s q c mode)"
  shows "set (match_entities m) \<subseteq> schema_of_entity ` set (entityTypes_of s)"
proof -
  from service_match_fields[OF assms] have "match_entities m =
      (case svc_entityTypes s of None \<Rightarrow> [] | Some ets \<Rightarrow> map schema_of_entity ets)"
    by (simp add: match_entities_def)
  then show ?thesis by (simp add: entityTypes_of_def split: option.splits)
qed

lemma entity_match_fields:
  "m \<in> set (entity_match s q mode ent) \<Longrightarrow>
   m_entity m = Some (schema_of_entity ent) \<and> m_type m \<noteq> TService"
  unfolding entity_match_def Let_def
  by (cases "0 < entityScore ent q mode"; cases "0.9 \<le> entityScore ent q mode") simp_all

lemma match_entities_entity:
  "m_entity m = Some e \<Longrightarrow> m_type m \<noteq> TService \<Longrightarrow> match_entities m = [e]"
  by (cases "m_type m") (simp_all add: match_entities_def)

lemma entity_matches_entities:
  assumes "m \<in> set (entity_matches s q mode)"
  shows "set (match_entities m) \<subseteq> schema_of_entity ` set (entityTypes_of s)"
proof (cases "svc_entityTypes s")
  case None
  with assms show ?thesis by (simp add: entity_matches_def)
next
  case (Some ets)
  with assms obtain ent where ent: "ent \<in> set ets" "m \<in> set (entity_match s q mode ent)"
    by (auto simp: entity_matches_def split: if_splits)
  from entity_match_fields[OF ent(2)] have "match_entities m = [schema_of_entity ent]"
    by (simp add: match_entities_entity)
  with ent(1) Some show ?thesis by (simp add: entityTypes_of_def)
qed

lemma catalog_entities_Cons:
  "set (catalog_entities (s # ss)) = set (entityTypes_of s) \<union> set (catalog_entities ss)"
  by (simp add: catalog_entities_def)

lemma search_loop_entities:
  "m \<in> set (search_loop cats q c mode ss) \<Longrightarrow>
   set (match_entities m) \<subseteq> schema_of_entity ` set (catalog_entities ss)"
proof (induction ss)
  case Nil
  then show ?case by simp
next
  case (Cons s ss)
  show ?case
  proof (cases "in_category cats c s")
    case False
    with Cons show ?thesis by (auto simp: catalog_entities_Cons)
  next
    case True
    with Cons.prems consider "m \<in> set (service_match cats s q c mode)"
      | "m \<in> set (entity_matches s q mode)" | "m \<in> set (search_loop cats q c mode ss)"
      by auto
    then show ?thesis
    proof cases
      case 1
      then show ?thesis using service_match_entities[OF 1] by (auto simp: catalog_entities_Cons)
    next
      case 2
      then show ?thesis using entity_matches_entities[OF 2] by (auto simp: catalog_entities_Cons)
    next
      case 3
      then show ?thesis using Cons.IH[OF 3] by (auto simp: catalog_entities_Cons)
    qed
  qed
qed

lemma from_search_level1: "from_search services (level1 services query category)"
  unfolding from_search_def level1_def by auto

lemma from_search_level2:
  "from_search services st \<Longrightarrow> from_search services (level2 services query st)"
  unfolding from_search_def level2_def by auto

lemma from_search_level3:
  "from_search services st \<Longrightarrow> from_search services (level3 services query st)"
  unfolding from_search_def level3_def Let_def by auto

lemma from_search_level5:
  "from_search services st \<Longrightarrow> from_search services (level5 services query st)"
  unfolding from_search_def level5_def by auto

lemma run_tiers_search:
  "\<exists>q c mode. st_matches (run_tiers services query category) = performCategorySearch services q c mode"
  using from_search_level5[OF from_search_level3[OF from_search_level2[OF from_search_level1]]]
  unfolding run_tiers_def from_search_def .

lemma set_slice0: "set (slice0 xs n) \<subseteq> set xs"
  by (simp add: slice0_def Let_def set_take_subset)

lemma limited_subset:
  "set (limitedMatches services args) \<subseteq> set (st_matches (tiers_of services args))"
  using set_slice0[of "sortMatches (st_matches (tiers_of services args))" "limit_of args"]
  by (simp add: limitedMatches_def sortMatches_def set_js_sort)

lemma entity_rows_names:
  "map row_propertyName (entity_rows m (schema_of_entity entity)) = map prop_name (ent_properties entity)"
  by (simp add: entity_rows_def schema_of_entity_def row_of_def schema_of_property_def comp_def)

lemma limited_entities:
  assumes "m \<in> set (limitedMatches services args)" and "e \<in> set (match_entities m)"
  shows "e \<in> schema_of_entity ` set (catalog_entities services)"
proof -
  from assms(1) limited_subset have "m \<in> set (st_matches (tiers_of services args))" by blast
  moreover obtain q c mode where
    "st_matches (tiers_of services args) = performCategorySearch services q c mode"
    unfolding tiers_of_def using run_tiers_search by blast
  ultimately have "m \<in> set (search_loop (serviceCategories services) q c mode services)"
    by (simp add: performCategorySearch_def)
  from search_loop_entities[OF this] assms(2) show ?thesis by blast
qed

lemma sum_rows:
  "length (concat (map (\<lambda>m. concat (map (entity_rows m) (match_entities m))) ms)) =
   (\<Sum>m\<leftarrow>ms. \<Sum>e\<leftarrow>match_entities m. length (es_properties e))"
  by (induction ms) (simp_all add: length_concat comp_def entity_rows_def)

text \<open>
  C4. The mapping table of a discovery call is the concatenation, over the matches
  retained after truncation and over the entities each carries, of one row per property:
  its length is the sum of the property counts of the retained entities, and every
  retained entity is the schema of a catalog entity whose properties all have their row,
  in order.
\<close>

theorem mapping_table_rows:
  "r_mappingTable (search_result services args) =
     concat (map (\<lambda>m. concat (map (entity_rows m) (match_entities m)))
       (limitedMatches services args)) \<and>
   length (r_mappingTable (search_result services args)) =
     (\<Sum>m\<leftarrow>limitedMatches services args. \<Sum>e\<leftarrow>match_entities m. length (es_properties e)) \<and>
   (\<forall>m\<in>set (limitedMatches services args). \<forall>e\<in>set (match_entities m).
      \<exists>entity\<in>set (catalog_entities services).
        e = schema_of_entity entity \<and>
        length (es_properties e) = length (ent_properties entity) \<and>
        map row_propertyName (entity_rows m e) = map prop_name (ent_properties entity))"
proof (intro conjI ballI)
  show "r_mappingTable (search_result services args) =
     concat (map (\<lambda>m. concat (map (entity_rows m) (match_entities m)))
       (limitedMatches services args))"
    by (simp add: search_result_def Let_def convert_concat)
  then show "length (r_mappingTable (search_result services args)) =
     (\<Sum>m\<leftarrow>limitedMatches services args. \<Sum>e\<leftarrow>match_entities m. length (es_properties e))"
    by (simp only: sum_rows)
next
  fix m e
  assume "m \<in> set (limitedMatches services args)" "e \<in> set (match_entities m)"
  then obtain entity where "entity \<in> set (catalog_entities services)" "e = schema_of_entity entity"
    using limited_entities by blast
  then show "\<exists>entity\<in>set (catalog_entities services).
        e = schema_of_entity entity \<and>
        length (es_properties e) = length (ent_properties entity) \<and>
        map row_propertyName (entity_rows m e) = map prop_name (ent_properties entity)"
    using entity_rows_names by (auto simp: schema_of_entity_def)
qed

theorem mapping_table_rows_witness:
  "hd (limitedMatches [ex_service] (ex_args (Some ''email'') None None))
     \<in> set (limitedMatches [ex_service] (ex_args (Some ''email'') None None)) \<and>
   schema_of_entity ex_customer
     \<in> set (match_entities (hd (limitedMatches [ex_service] (ex_args (Some ''email'') None None)))) \<and>
   length (r_mappingTable (search_result [ex_service] (ex_args (Some ''email'') None None))) = 3 \<and>
   map row_propertyName
     (entity_rows (hd (limitedMatches [ex_service] (ex_args (Some ''email'') None None)))
        (schema_of_entity ex_customer)) = [''ID'', ''Name'', ''Email'']"
proof -
  let ?L = "limitedMatches [ex_service] (ex_args (Some ''email'') None None)"
  have L: "?L \<noteq> []" by code_simp
  have E: "match_entities (hd ?L) = [schema_of_entity ex_customer]" by code_simp
  have S: "(\<Sum>m\<leftarrow>?L. \<Sum>e\<leftarrow>match_entities m. length (es_properties e)) = 3" by code_simp
  have m: "hd ?L \<in> set ?L" using L by simp
  have e: "schema_of_entity ex_customer \<in> set (match_entities (hd ?L))" using E by simp
  have C: "catalog_entities [ex_service] = [ex_customer]" by code_simp
  have P: "map prop_name (ent_properties ex_customer) = [''ID'', ''Name'', ''Email'']" by code_simp
  note T = mapping_table_rows[of "[ex_service]" "ex_args (Some ''email'') None None"]
  have len: "length (r_mappingTable (search_result [ex_service] (ex_args (Some ''email'') None None))) = 3"
    using T[THEN conjunct2, THEN conjunct1] S by (simp only:)
  from T m e have "\<exists>entity\<in>set (catalog_entities [ex_service]).
        schema_of_entity ex_customer = schema_of_entity entity \<and>
        length (es_properties (schema_of_entity ex_customer)) = length (ent_properties entity) \<and>
        map row_propertyName (entity_rows (hd ?L) (schema_of_entity ex_customer)) = map prop_name (ent_properties entity)"
    by blast
  then have "map row_propertyName (entity_rows (hd ?L) (schema_of_entity ex_customer)) = [''ID'', ''Name'', ''Email'']"
    using C P by simp
  with m e len show ?thesis by simp
qed

subsection \<open>The limit\<close>

lemma slice0_from_one: "1 \<le> n \<Longrightarrow> slice0 xs n = take (nat \<lfloor>n\<rfloor>) xs"
proof -
  assume "1 \<le> n"
  then have "0 \<le> n" and "0 \<le> \<lfloor>n\<rfloor>" by simp_all
  then show ?thesis by (simp add: slice0_def js_trunc_def Let_def)
qed

lemma floor_bounds: "1 \<le> (n::rat) \<Longrightarrow> n \<le> 20 \<Longrightarrow> 1 \<le> nat \<lfloor>n\<rfloor> \<and> nat \<lfloor>n\<rfloor> \<le> 20"
proof -
  assume a: "1 \<le> n" "n \<le> 20"
  then have lo: "1 \<le> \<lfloor>n\<rfloor>" by (simp add: le_floor_iff)
  from a have hi: "\<lfloor>n\<rfloor> \<le> 20" by (simp add: floor_le_iff)
  from lo have "1 \<le> nat \<lfloor>n\<rfloor>" by linarith
  moreover from hi have "nat \<lfloor>n\<rfloor> \<le> 20" by linarith
  ultimately show ?thesis by blast
qed

text \<open>
  C8 (amended). Nothing clamps the limit. A call whose limit is outside the registered
  schema (no limit, or a number from 1 to 20) is rejected with the validation error and
  never reaches the handler. The handler's effective limit is the supplied number, or 10
  when the limit is absent or 0, and it retains \<^verbatim>\<open>matches.slice(0, limit)\<close>, which
  truncates the limit toward zero and counts a negative one from the end. For every limit
  the schema admits the effective limit is the supplied number (10 when absent) and the
  retained matches are the first \<open>floor limit\<close> of the sorted matches: at most 20, and
  at least 1 when any match exists.
\<close>

theorem limit_within_schema:
  "limit_of args = (case arg_limit args of None \<Rightarrow> 10 | Some n \<Rightarrow> if n = 0 then 10 else n) \<and>
   limitedMatches services args =
     (if js_trunc (limit_of args) < 0
      then take (nat (int (length (st_matches (tiers_of services args))) + js_trunc (limit_of args)))
             (sortMatches (st_matches (tiers_of services args)))
      else take (nat (js_trunc (limit_of args)))
             (sortMatches (st_matches (tiers_of services args)))) \<and>
   (\<not> limit_in_schema (arg_limit args) \<longrightarrow> discover_sap_data services args = ValidationError) \<and>
   (limit_in_schema (arg_limit args) \<longrightarrow>
      discover_sap_data services args = Handled (searchServicesAndEntities services args) \<and>
      limit_of args = (case arg_limit args of None \<Rightarrow> 10 | Some n \<Rightarrow> n) \<and>
      1 \<le> limit_of args \<and> limit_of args \<le> 20 \<and>
      limitedMatches services args =
        take (nat \<lfloor>limit_of args\<rfloor>) (sortMatches (st_matches (tiers_of services args))) \<and>
      length (limitedMatches services args) =
        min (nat \<lfloor>limit_of args\<rfloor>) (length (st_matches (tiers_of services args))) \<and>
      length (limitedMatches services args) \<le> 20 \<and>
      (st_matches (tiers_of services args) \<noteq> [] \<longrightarrow> 1 \<le> length (limitedMatches services args)))"
proof (intro conjI impI)
  show "limit_of args = (case arg_limit args of None \<Rightarrow> 10 | Some n \<Rightarrow> if n = 0 then 10 else n)"
    by (simp add: limit_of_def)
  show "limitedMatches services args =
     (if js_trunc (limit_of args) < 0
      then take (nat (int (length (st_matches (tiers_of services args))) + js_trunc (limit_of args)))
             (sortMatches (st_matches (tiers_of services args)))
      else take (nat (js_trunc (limit_of args)))
             (sortMatches (st_matches (tiers_of services args))))"
    by (simp add: limitedMatches_def slice0_def Let_def sortMatches_def length_js_sort)
  show "\<not> limit_in_schema (arg_limit args) \<Longrightarrow> discover_sap_data services args = ValidationError"
    by (simp add: discover_sap_data_def)
next
  assume a: "limit_in_schema (arg_limit args)"
  show "discover_sap_data services args = Handled (searchServicesAndEntities services args)"
    using a by (simp add: discover_sap_data_def)
  show e: "limit_of args = (case arg_limit args of None \<Rightarrow> 10 | Some n \<Rightarrow> n)"
    using a by (auto simp: limit_in_schema_def limit_of_def split: option.splits)
  show l1: "1 \<le> limit_of args" and l2: "limit_of args \<le> 20"
    using a by (auto simp: limit_in_schema_def limit_of_def split: option.splits)
  show t: "limitedMatches services args =
        take (nat \<lfloor>limit_of args\<rfloor>) (sortMatches (st_matches (tiers_of services args)))"
    by (simp add: limitedMatches_def slice0_from_one[OF l1])
  show len: "length (limitedMatches services args) =
        min (nat \<lfloor>limit_of args\<rfloor>) (length (st_matches (tiers_of services args)))"
    unfolding t by (simp add: sortMatches_def length_js_sort)
  note fb = floor_bounds[OF l1 l2]
  show "length (limitedMatches services args) \<le> 20"
    unfolding len using fb by linarith
  show "st_matches (tiers_of services args) \<noteq> [] \<Longrightarrow> 1 \<le> length (limitedMatches services args)"
  proof -
    assume "st_matches (tiers_of services args) \<noteq> []"
    then have "1 \<le> length (st_matches (tiers_of services args))"
      by (cases "st_matches (tiers_of services args)") simp_all
    with fb show ?thesis unfolding len by linarith
  qed
qed

theorem limit_within_schema_witness:
  "limit_in_schema (arg_limit (ex_args None None (Some (5 / 2)))) \<and>
   limit_of (ex_args None None (Some (5 / 2))) = 5 / 2 \<and>
   st_matches (tiers_of [ex_service, ex_service, ex_service] (ex_args None None (Some (5 / 2)))) \<noteq> [] \<and>
   length (limitedMatches [ex_service, ex_service, ex_service] (ex_args None None (Some (5 / 2)))) = 2 \<and>
   \<not> limit_in_schema (arg_limit (ex_args None None (Some 25))) \<and>
   discover_sap_data [ex_service] (ex_args None None (Some 25)) = ValidationError"
proof -
  let ?a = "ex_args None None (Some (5 / 2))" and ?b = "ex_args None None (Some 25)"
  have h: "limit_in_schema (arg_limit ?a)" by (simp add: limit_in_schema_def ex_args_def)
  have g: "\<not> limit_in_schema (arg_limit ?b)" by (simp add: limit_in_schema_def ex_args_def)
  have v: "arg_limit ?a = Some (5 / 2)" by (simp add: ex_args_def)
  have f: "nat \<lfloor>5 / 2 :: rat\<rfloor> = 2" by code_simp
  have n: "length (st_matches (tiers_of [ex_service, ex_service, ex_service] ?a)) = 3"
    by code_simp
  then have ne: "st_matches (tiers_of [ex_service, ex_service, ex_service] ?a) \<noteq> []" by auto
  note T = limit_within_schema[where args="?a" and services="[ex_service, ex_service, ex_service]"]
  from T h have l: "limit_of ?a = 5 / 2" unfolding v by simp
  from T h have "length (limitedMatches [ex_service, ex_service, ex_service] ?a) =
        min (nat \<lfloor>limit_of ?a\<rfloor>) (length (st_matches (tiers_of [ex_service, ex_service, ex_service] ?a)))"
    by blast
  then have r: "length (limitedMatches [ex_service, ex_service, ex_service] ?a) = 2"
    unfolding l f n by simp
  from limit_within_schema[where args="?b" and services="[ex_service]"] g
  have x: "discover_sap_data [ex_service] ?b = ValidationError" by blast
  from h l ne r g x show ?thesis by simp
qed

text \<open>
  The claim as stated fails. A limit of 25 is not clamped to 20: the schema rejects the
  call, and the handler, given it, would retain 21 of 21 matches. A limit of -1 is not
  clamped to 1: the schema rejects the call, and the handler, given it, would retain none
  of the one match found.
\<close>

theorem limit_not_clamped_counterexample:
  "discover_sap_data (replicate 21 ex_service) (ex_args None None (Some 25)) = ValidationError \<and>
   limit_of (ex_args None None (Some 25)) = 25 \<and>
   length (limitedMatches (replicate 21 ex_service) (ex_args None None (Some 25))) = 21 \<and>
   discover_sap_data [ex_service] (ex_args None None (Some (- 1))) = ValidationError \<and>
   st_matches (tiers_of [ex_service] (ex_args None None (Some (- 1)))) \<noteq> [] \<and>
   limitedMatches [ex_service] (ex_args None None (Some (- 1))) = []"
proof -
  have "discover_sap_data (replicate 21 ex_service) (ex_args None None (Some 25)) = ValidationError"
    by (simp add: discover_sap_data_def limit_in_schema_def ex_args_def)
  moreover have "limit_of (ex_args None None (Some 25)) = 25"
    by (simp add: limit_of_def ex_args_def)
  moreover have "length (limitedMatches (replicate 21 ex_service) (ex_args None None (Some 25))) = 21"
    by code_simp
  moreover have "discover_sap_data [ex_service] (ex_args None None (Some (- 1))) = ValidationError"
    by (simp add: discover_sap_data_def limit_in_schema_def ex_args_def)
  moreover have "st_matches (tiers_of [ex_service] (ex_args None None (Some (- 1)))) \<noteq> []"
    by code_simp
  moreover have "limitedMatches [ex_service] (ex_args None None (Some (- 1))) = []"
    by code_simp
  ultimately show ?thesis by simp
qed

section \<open>Properties of the dispatcher\<close>

lemma valid_ops: "''create'' \<in> set validOperations" "''update'' \<in> set validOperations"
  "''delete'' \<in> set validOperations" "''read'' \<in> set validOperations"
  "''read-single'' \<in> set validOperations"
  by (simp_all add: validOperations_def)

lemma execute_resolved:
  assumes "x_operation args = Some op" and "toLowerCase op \<in> set validOperations"
    and "find (\<lambda>s. svc_id s = x_serviceId args) services = Some service"
    and "find_entity service (x_entityName args) = Some entityType"
  shows "executeEntityOperation services userToken client args =
     (case dispatch client service entityType (x_entityName args) (toLowerCase op)
             (parameters_of args) (build_queryOptions args) of
        (calls, Inl e) \<Rightarrow>
          (SetUserToken (token_for userToken args) # calls,
           Failed (Some op) (x_entityName args) e)
      | (calls, Inr (description, data)) \<Rightarrow>
          (SetUserToken (token_for userToken args) # calls, Success description data))"
  using assms by (simp add: executeEntityOperation_def parameters_of_def Let_def)

lemma dispatch_gate:
  assumes "(operation = ''create'' \<and> \<not> creatable entityType) \<or>
           (operation = ''update'' \<and> \<not> updatable entityType) \<or>
           (operation = ''delete'' \<and> \<not> deletable entityType)"
  shows "dispatch client service entityType entityName operation parameters queryOptions =
           ([], Inl (CapabilityError entityName operation))"
  using assms by (auto simp: dispatch_def)

text \<open>
  C1. An execute call with operation create, update or delete (in any casing) on an entity
  whose flag for that operation is false fails with the capability error, whatever the
  client would answer. The only call made on the client is \<^verbatim>\<open>setUserToken\<close>, which
  stores the token; none of the network operations is called.
\<close>

theorem capability_gate:
  assumes "x_operation args = Some op"
    and "find (\<lambda>s. svc_id s = x_serviceId args) services = Some service"
    and "find_entity service (x_entityName args) = Some entityType"
    and "(toLowerCase op = ''create'' \<and> \<not> creatable entityType) \<or>
         (toLowerCase op = ''update'' \<and> \<not> updatable entityType) \<or>
         (toLowerCase op = ''delete'' \<and> \<not> deletable entityType)"
  shows "executeEntityOperation services userToken client args =
           ([SetUserToken (token_for userToken args)],
            Failed (Some op) (x_entityName args)
              (CapabilityError (x_entityName args) (toLowerCase op))) \<and>
         filter is_network_call (fst (executeEntityOperation services userToken client args)) = []"
proof -
  from assms(4) have v: "toLowerCase op \<in> set validOperations"
    using valid_ops by auto
  have "executeEntityOperation services userToken client args =
           ([SetUserToken (token_for userToken args)],
            Failed (Some op) (x_entityName args)
              (CapabilityError (x_entityName args) (toLowerCase op)))"
    by (simp add: execute_resolved[OF assms(1) v assms(2) assms(3)] dispatch_gate[OF assms(4)])
  then show ?thesis by simp
qed

lemma dispatch_update:
  assumes "updatable entityType" and "buildKeyValue entityType parameters = Inr k"
  shows "fst (dispatch client service entityType entityName ''update'' parameters queryOptions) =
           [UpdateEntity (svc_url service) (ent_entitySet entityType) k
              (parameters |` (- set (ent_keys entityType)))]"
  using assms by (simp add: dispatch_def Let_def)

text \<open>
  C5. An update that reaches the client forwards the parameters without the entity's
  declared keys: no key is in the payload, every other field is forwarded unchanged, and
  when the parameters hold nothing but keys the payload is empty.
\<close>

theorem update_strips_keys:
  assumes "x_operation args = Some op" and "toLowerCase op = ''update''"
    and "find (\<lambda>s. svc_id s = x_serviceId args) services = Some service"
    and "find_entity service (x_entityName args) = Some entityType"
    and "updatable entityType"
    and "buildKeyValue entityType (parameters_of args) = Inr k"
  shows "\<exists>updateData.
           fst (executeEntityOperation services userToken client args) =
             [SetUserToken (token_for userToken args),
              UpdateEntity (svc_url service) (ent_entitySet entityType) k updateData] \<and>
           (\<forall>key \<in> set (ent_keys entityType). updateData key = None) \<and>
           (\<forall>name. name \<notin> set (ent_keys entityType) \<longrightarrow> updateData name = parameters_of args name) \<and>
           (dom (parameters_of args) \<subseteq> set (ent_keys entityType) \<longrightarrow> updateData = Map.empty)"
proof -
  let ?d = "parameters_of args |` (- set (ent_keys entityType))"
  from assms(2) have v: "toLowerCase op \<in> set validOperations" using valid_ops by simp
  have "fst (executeEntityOperation services userToken client args) =
     SetUserToken (token_for userToken args) #
       fst (dispatch client service entityType (x_entityName args) ''update''
              (parameters_of args) (build_queryOptions args))"
    unfolding execute_resolved[OF assms(1) v assms(3) assms(4)] assms(2)
    by (simp split: prod.splits sum.splits)
  then have 1: "fst (executeEntityOperation services userToken client args) =
             [SetUserToken (token_for userToken args),
              UpdateEntity (svc_url service) (ent_entitySet entityType) k ?d]"
    by (simp add: dispatch_update[OF assms(5) assms(6)])
  have 2: "\<forall>key \<in> set (ent_keys entityType). ?d key = None" by simp
  have 3: "\<forall>name. name \<notin> set (ent_keys entityType) \<longrightarrow> ?d name = parameters_of args name" by simp
  have 4: "dom (parameters_of args) \<subseteq> set (ent_keys entityType) \<longrightarrow> ?d = Map.empty"
    by (auto simp: restrict_map_def fun_eq_iff)
  from 1 2 3 4 show ?thesis by blast
qed

lemma ex_find_service: "find (\<lambda>s. svc_id s = x_serviceId (ex_exec op ps)) [ex_service] = Some ex_service"
  by (simp add: ex_exec_def ex_service_def)

lemma ex_find_entity: "find_entity ex_service (x_entityName (ex_exec op ps)) = Some ex_customer"
  by (simp add: find_entity_def ex_exec_def ex_service_def ex_customer_def)

theorem capability_gate_witness:
  "executeEntityOperation [ex_service] None ex_client (ex_exec ''Delete'' None) =
     ([SetUserToken None],
      Failed (Some ''Delete'') ''Customer'' (CapabilityError ''Customer'' ''delete'')) \<and>
   filter is_network_call
     (fst (executeEntityOperation [ex_service] None ex_client (ex_exec ''Delete'' None))) = []"
proof -
  have l: "toLowerCase ''Delete'' = ''delete''" by code_simp
  have d: "\<not> deletable ex_customer" by (simp add: ex_customer_def)
  have o: "x_operation (ex_exec ''Delete'' None) = Some ''Delete''" by (simp add: ex_exec_def)
  have t: "token_for None (ex_exec ''Delete'' None) = None" by (simp add: token_for_def)
  have n: "x_entityName (ex_exec ''Delete'' None) = ''Customer''" by (simp add: ex_exec_def)
  from capability_gate[where userToken=None and client=ex_client, OF o ex_find_service ex_find_entity] l d
  show ?thesis unfolding t n by simp
qed

theorem update_strips_keys_witness:
  "fst (executeEntityOperation [ex_service] None ex_client
          (ex_exec ''update'' (Some [''ID'' \<mapsto> JStr ''1'']))) =
     [SetUserToken None, UpdateEntity ''/sap/API_BP'' (Some ''Customers'') ''1'' Map.empty]"
proof -
  let ?a = "ex_exec ''update'' (Some [''ID'' \<mapsto> JStr ''1''])"
  have l: "toLowerCase ''update'' = ''update''" by code_simp
  have u: "updatable ex_customer" by (simp add: ex_customer_def)
  have o: "x_operation ?a = Some ''update''" by (simp add: ex_exec_def)
  have t: "token_for None ?a = None" by (simp add: token_for_def)
  have p: "parameters_of ?a = [''ID'' \<mapsto> JStr ''1'']" by (simp add: parameters_of_def ex_exec_def)
  have k: "buildKeyValue ex_customer (parameters_of ?a) = Inr ''1''"
    unfolding p by (simp add: buildKeyValue_def keyProperties_def ex_customer_def js_get_def)
  have d: "dom (parameters_of ?a) \<subseteq> set (ent_keys ex_customer)"
    unfolding p by (simp add: ex_customer_def)
  have s: "svc_url ex_service = ''/sap/API_BP''" "ent_entitySet ex_customer = Some ''Customers''"
    by (simp_all add: ex_service_def ex_customer_def)
  from update_strips_keys[where userToken=None and client=ex_client, OF o l ex_find_service ex_find_entity u k] d
  show ?thesis unfolding t s by auto
qed

lemma lower_char_idem: "lower_char (lower_char c) = lower_char c"
  by (simp add: lower_char_def)

lemma toLowerCase_idem: "toLowerCase (toLowerCase s) = toLowerCase s"
  by (simp add: toLowerCase_def lower_char_idem)

lemma execute_invalid:
  assumes "x_operation args = Some op" and "toLowerCase op \<notin> set validOperations"
  shows "executeEntityOperation services userToken client args =
           ([], Failed (Some op) (x_entityName args) (InvalidOperation (Some (toLowerCase op))))"
  using assms by (simp add: executeEntityOperation_def Let_def)

lemma execute_no_service:
  assumes "x_operation args = Some op" and "toLowerCase op \<in> set validOperations"
    and "find (\<lambda>s. svc_id s = x_serviceId args) services = None"
  shows "executeEntityOperation services userToken client args =
           ([], ServiceNotFound (x_serviceId args)
                  (map_option svc_id
                     (find (\<lambda>s. toLowerCase (svc_title s) = toLowerCase (x_serviceId args))
                        services)))"
  using assms by (simp add: executeEntityOperation_def Let_def)

lemma execute_no_entity:
  assumes "x_operation args = Some op" and "toLowerCase op \<in> set validOperations"
    and "find (\<lambda>s. svc_id s = x_serviceId args) services = Some service"
    and "find_entity service (x_entityName args) = None"
  shows "executeEntityOperation services userToken client args =
           ([], EntityNotFound (x_entityName args) (x_serviceId args))"
  using assms by (simp add: executeEntityOperation_def Let_def)

lemma with_operation_simps:
  "x_operation (args\<lparr>x_operation := v\<rparr>) = v"
  "x_serviceId (args\<lparr>x_operation := v\<rparr>) = x_serviceId args"
  "x_entityName (args\<lparr>x_operation := v\<rparr>) = x_entityName args"
  "parameters_of (args\<lparr>x_operation := v\<rparr>) = parameters_of args"
  "build_queryOptions (args\<lparr>x_operation := v\<rparr>) = build_queryOptions args"
  "token_for userToken (args\<lparr>x_operation := v\<rparr>) = token_for userToken args"
  by (simp_all add: parameters_of_def build_queryOptions_def token_for_def)

lemma execute_lowered:
  "fst (executeEntityOperation services userToken client (args\<lparr>x_operation := Some op\<rparr>)) =
   fst (executeEntityOperation services userToken client
          (args\<lparr>x_operation := Some (toLowerCase op)\<rparr>)) \<and>
   erase_echo (snd (executeEntityOperation services userToken client
                      (args\<lparr>x_operation := Some op\<rparr>))) =
   erase_echo (snd (executeEntityOperation services userToken client
                      (args\<lparr>x_operation := Some (toLowerCase op)\<rparr>)))"
proof -
  let ?a = "args\<lparr>x_operation := Some op\<rparr>" and ?b = "args\<lparr>x_operation := Some (toLowerCase op)\<rparr>"
  have oa: "x_operation ?a = Some op" and ob: "x_operation ?b = Some (toLowerCase op)" by simp_all
  show ?thesis
  proof (cases "toLowerCase op \<in> set validOperations")
    case False
    then have "toLowerCase (toLowerCase op) \<notin> set validOperations" by (simp add: toLowerCase_idem)
    from execute_invalid[where services=services and userToken=userToken and client=client, OF oa False] execute_invalid[where services=services and userToken=userToken and client=client, OF ob this]
    show ?thesis by (simp add: erase_echo_def toLowerCase_idem)
  next
    case True
    then have True': "toLowerCase (toLowerCase op) \<in> set validOperations" by (simp add: toLowerCase_idem)
    show ?thesis
    proof (cases "find (\<lambda>s. svc_id s = x_serviceId args) services")
      case None
      then have "find (\<lambda>s. svc_id s = x_serviceId ?a) services = None"
        "find (\<lambda>s. svc_id s = x_serviceId ?b) services = None" by simp_all
      from execute_no_service[where services=services and userToken=userToken and client=client, OF oa True this(1)] execute_no_service[where services=services and userToken=userToken and client=client, OF ob True' this(2)]
      show ?thesis by simp
    next
      case (Some service)
      then have fa: "find (\<lambda>s. svc_id s = x_serviceId ?a) services = Some service"
        and fb: "find (\<lambda>s. svc_id s = x_serviceId ?b) services = Some service" by simp_all
      show ?thesis
      proof (cases "find_entity service (x_entityName args)")
        case None
        then have "find_entity service (x_entityName ?a) = None"
          "find_entity service (x_entityName ?b) = None" by simp_all
        from execute_no_entity[where services=services and userToken=userToken and client=client, OF oa True fa this(1)] execute_no_entity[where services=services and userToken=userToken and client=client, OF ob True' fb this(2)]
        show ?thesis by simp
      next
        case (Some entityType)
        then have ea: "find_entity service (x_entityName ?a) = Some entityType"
          and eb: "find_entity service (x_entityName ?b) = Some entityType" by simp_all
        show ?thesis
          unfolding execute_resolved[OF oa True fa ea] execute_resolved[OF ob True' fb eb]
          by (simp add: with_operation_simps toLowerCase_idem erase_echo_def
                   split: prod.splits sum.splits)
      qed
    qed
  qed
qed

text \<open>
  C10. The operation name is matched after lowercasing: a call makes the same client calls
  and gives the same response as the call with the lowercased name (a failure repeats the
  caller's own spelling). A name that is not one of the five after lowercasing gives the
  validation error, whose message names the five, before any lookup; a name that is one
  of the five never does.
\<close>

theorem operation_case_insensitive:
  "fst (executeEntityOperation services userToken client (args\<lparr>x_operation := Some op\<rparr>)) =
   fst (executeEntityOperation services userToken client
          (args\<lparr>x_operation := Some (toLowerCase op)\<rparr>)) \<and>
   erase_echo (snd (executeEntityOperation services userToken client
                      (args\<lparr>x_operation := Some op\<rparr>))) =
   erase_echo (snd (executeEntityOperation services userToken client
                      (args\<lparr>x_operation := Some (toLowerCase op)\<rparr>))) \<and>
   (toLowerCase op \<notin> set validOperations \<longrightarrow>
      executeEntityOperation services userToken client (args\<lparr>x_operation := Some op\<rparr>) =
        ([], Failed (Some op) (x_entityName args) (InvalidOperation (Some (toLowerCase op))))) \<and>
   (toLowerCase op \<in> set validOperations \<longrightarrow>
      (\<forall>w n e. executeEntityOperation services userToken client (args\<lparr>x_operation := Some op\<rparr>) \<noteq>
         ([], Failed w n (InvalidOperation e)))) \<and>
   message (InvalidOperation (Some (toLowerCase op))) =
     ''Invalid operation: '' @ toLowerCase op @
     ''. Valid operations are: read, read-single, create, update, delete''"
proof -
  let ?a = "args\<lparr>x_operation := Some op\<rparr>"
  have oa: "x_operation ?a = Some op" by simp
  have 3: "toLowerCase op \<notin> set validOperations \<longrightarrow>
      executeEntityOperation services userToken client ?a =
        ([], Failed (Some op) (x_entityName args) (InvalidOperation (Some (toLowerCase op))))"
    using execute_invalid[where services=services and userToken=userToken and client=client, OF oa] by simp
  have 4: "toLowerCase op \<in> set validOperations \<longrightarrow>
      (\<forall>w n e. executeEntityOperation services userToken client ?a \<noteq>
         ([], Failed w n (InvalidOperation e)))"
  proof (intro impI allI)
    fix w n e
    assume v: "toLowerCase op \<in> set validOperations"
    show "executeEntityOperation services userToken client ?a \<noteq> ([], Failed w n (InvalidOperation e))"
    proof (cases "find (\<lambda>s. svc_id s = x_serviceId ?a) services")
      case None
      from execute_no_service[where services=services and userToken=userToken and client=client, OF oa v None] show ?thesis by simp
    next
      case (Some service)
      show ?thesis
      proof (cases "find_entity service (x_entityName ?a)")
        case None
        from execute_no_entity[where services=services and userToken=userToken and client=client, OF oa v Some None] show ?thesis by simp
      next
        case (Some entityType)
        show ?thesis
          unfolding execute_resolved[OF oa v \<open>find (\<lambda>s. svc_id s = x_serviceId ?a) services = Some service\<close> Some]
          by (simp split: prod.splits sum.splits)
      qed
    qed
  qed
  have 5: "message (InvalidOperation (Some (toLowerCase op))) =
     ''Invalid operation: '' @ toLowerCase op @
     ''. Valid operations are: read, read-single, create, update, delete''"
    by (simp add: validOperations_def)
  from execute_lowered[where services=services and userToken=userToken and client=client and args=args and op=op] 3 4 5 show ?thesis by blast
qed


theorem operation_case_insensitive_witness:
  "toLowerCase ''Remove'' \<notin> set validOperations \<and>
   executeEntityOperation [ex_service] None ex_client (ex_exec ''Remove'' None) =
     ([], Failed (Some ''Remove'') ''Customer'' (InvalidOperation (Some ''remove''))) \<and>
   toLowerCase ''READ'' \<in> set validOperations \<and>
   fst (executeEntityOperation [ex_service] None ex_client (ex_exec ''READ'' None)) =
     [SetUserToken None, ReadEntitySet ''/sap/API_BP'' (Some ''Customers'') Map.empty False]"
proof -
  have a: "(ex_exec ''x'' None)\<lparr>x_operation := Some ''Remove''\<rparr> = ex_exec ''Remove'' None"
    "(ex_exec ''x'' None)\<lparr>x_operation := Some ''READ''\<rparr> = ex_exec ''READ'' None"
    "(ex_exec ''x'' None)\<lparr>x_operation := Some ''read''\<rparr> = ex_exec ''read'' None"
    by (simp_all add: ex_exec_def)
  have l: "toLowerCase ''Remove'' = ''remove''" "toLowerCase ''READ'' = ''read''" by code_simp+
  have v: "''remove'' \<notin> set validOperations" "''read'' \<in> set validOperations"
    by (simp_all add: validOperations_def)
  have n: "x_entityName (ex_exec ''x'' None) = ''Customer''" by (simp add: ex_exec_def)
  have o: "x_operation (ex_exec ''read'' None) = Some ''read''" by (simp add: ex_exec_def)
  have lr0: "toLowerCase ''read'' = ''read''" by code_simp
  then have lr: "toLowerCase ''read'' \<in> set validOperations" using v(2) by simp
  have q: "build_queryOptions (ex_exec ''read'' None) = Map.empty"
    by (simp add: build_queryOptions_def ex_exec_def put_if_def)
  have r: "fst (executeEntityOperation [ex_service] None ex_client (ex_exec ''read'' None)) =
     [SetUserToken None, ReadEntitySet ''/sap/API_BP'' (Some ''Customers'') Map.empty False]"
    unfolding execute_resolved[OF o lr ex_find_service ex_find_entity]
    by (simp add: dispatch_def Let_def q token_for_def ex_service_def ex_customer_def
          call_client_def ex_client_def lr0)
  note T1 = operation_case_insensitive[where services="[ex_service]" and userToken=None
      and client=ex_client and args="ex_exec ''x'' None" and op="''Remove''"]
  note T2 = operation_case_insensitive[where services="[ex_service]" and userToken=None
      and client=ex_client and args="ex_exec ''x'' None" and op="''READ''"]
  from T1 have 1: "executeEntityOperation [ex_service] None ex_client (ex_exec ''Remove'' None) =
     ([], Failed (Some ''Remove'') ''Customer'' (InvalidOperation (Some ''remove'')))"
    unfolding a l n using v(1) by blast
  from T2 have 2: "fst (executeEntityOperation [ex_service] None ex_client (ex_exec ''READ'' None)) =
     [SetUserToken None, ReadEntitySet ''/sap/API_BP'' (Some ''Customers'') Map.empty False]"
    unfolding a l using r by simp
  from 1 2 l v show ?thesis by simp
qed

subsection \<open>buildKeyValue\<close>















section \<open>Properties of the tiers\<close>

lemma log_level1: "st_log (level1 services query category) = []"
  by (simp add: level1_def)

lemma log_level2:
  "st_log (level2 services query st) =
     st_log st @ (if st_matches st = [] \<and> query \<noteq> [] \<and> str_includes query '' ''
                  then [TrySeparatedSameCategory] else [])"
  by (simp add: level2_def)

lemma log_level3:
  "st_log (level3 services query st) =
     st_log st @
     (if st_matches st = [] \<and> st_category st \<noteq> ''all'' \<and> query \<noteq> [] then
        RetryAllCategories #
        (if performCategorySearch services query ''all'' Combined = [] \<and> str_includes query '' ''
         then [TrySeparatedAllCategories] else [])
      else [])"
  by (simp add: level3_def Let_def)

lemma log_level5:
  "st_log (level5 services query st) =
     st_log st @ (if st_matches st = [] \<and> query \<noteq> [] then [ReturnAllServices] else [])"
  by (simp add: level5_def)

lemma category_level1: "st_category (level1 services query category) = category"
  by (simp add: level1_def)

lemma category_level2: "st_category (level2 services query st) = st_category st"
  by (simp add: level2_def)

lemma tiers_of_after:
  "tiers_of services args = level5 services (query_of args) (after_tier3 services args)"
  by (simp add: tiers_of_def run_tiers_def after_tier3_def after_tier2_def after_tier1_def)

text \<open>
  C3 (amended). In every discovery call, with the lowercased query and the validated
  category: tier 2 (separated words, same category) fires iff tier 1 found nothing and the
  query is non-empty and contains a space character; tier 3 (retry with category
  \<^verbatim>\<open>all\<close>) fires iff the tiers before it found nothing, the category is not
  \<^verbatim>\<open>all\<close> and the query is non-empty; tier 4 (return all services) fires iff the
  tiers before it found nothing and the query is non-empty.
\<close>

theorem tier_firing_conditions:
  "(TrySeparatedSameCategory \<in> set (st_log (tiers_of services args)) \<longleftrightarrow>
      st_matches (after_tier1 services args) = [] \<and> query_of args \<noteq> [] \<and>
      str_includes (query_of args) '' '') \<and>
   (RetryAllCategories \<in> set (st_log (tiers_of services args)) \<longleftrightarrow>
      st_matches (after_tier2 services args) = [] \<and> category_of args \<noteq> ''all'' \<and>
      query_of args \<noteq> []) \<and>
   (ReturnAllServices \<in> set (st_log (tiers_of services args)) \<longleftrightarrow>
      st_matches (after_tier3 services args) = [] \<and> query_of args \<noteq> []) \<and>
   st_matches (after_tier1 services args) =
     performCategorySearch services (query_of args) (category_of args) Combined"
proof -
  have c: "st_category (after_tier2 services args) = category_of args"
    by (simp add: after_tier2_def after_tier1_def category_level2 category_level1)
  have l: "st_log (tiers_of services args) =
     (if st_matches (after_tier1 services args) = [] \<and> query_of args \<noteq> [] \<and>
         str_includes (query_of args) '' '' then [TrySeparatedSameCategory] else []) @
     (if st_matches (after_tier2 services args) = [] \<and> category_of args \<noteq> ''all'' \<and>
         query_of args \<noteq> [] then
        RetryAllCategories #
        (if performCategorySearch services (query_of args) ''all'' Combined = [] \<and>
            str_includes (query_of args) '' ''
         then [TrySeparatedAllCategories] else [])
      else []) @
     (if st_matches (after_tier3 services args) = [] \<and> query_of args \<noteq> []
      then [ReturnAllServices] else [])"
    unfolding tiers_of_after log_level5
    unfolding after_tier3_def log_level3
    unfolding after_tier3_def[symmetric] c
    unfolding after_tier2_def log_level2
    unfolding after_tier2_def[symmetric] after_tier1_def log_level1
    by simp
  have m: "st_matches (after_tier1 services args) =
     performCategorySearch services (query_of args) (category_of args) Combined"
    by (simp add: after_tier1_def level1_def)
  show ?thesis unfolding l using m by auto
qed


text \<open>
  The claim as stated fails. The query \<^verbatim>\<open>"zz "\<close> has one word and fires tier 2,
  because it contains a space; and with an empty query in category \<^verbatim>\<open>sales\<close>, where
  nothing is found, tier 3 does not fire although the category is not \<^verbatim>\<open>all\<close>.
\<close>

theorem tier_firing_counterexample:
  "length (js_words [] (query_of (ex_args (Some ''zz '') None None))) = 1 \<and>
   st_matches (after_tier1 [ex_service] (ex_args (Some ''zz '') None None)) = [] \<and>
   TrySeparatedSameCategory \<in> set (st_log (tiers_of [ex_service] (ex_args (Some ''zz '') None None))) \<and>
   st_matches (after_tier2 [ex_service] (ex_args None (Some ''sales'') None)) = [] \<and>
   category_of (ex_args None (Some ''sales'') None) \<noteq> ''all'' \<and>
   RetryAllCategories \<notin> set (st_log (tiers_of [ex_service] (ex_args None (Some ''sales'') None)))"
proof -
  have "length (js_words [] (query_of (ex_args (Some ''zz '') None None))) = 1" by code_simp
  moreover have "st_matches (after_tier1 [ex_service] (ex_args (Some ''zz '') None None)) = []"
    by code_simp
  moreover have "st_log (tiers_of [ex_service] (ex_args (Some ''zz '') None None)) =
      [TrySeparatedSameCategory, ReturnAllServices]" by code_simp
  moreover have "st_matches (after_tier2 [ex_service] (ex_args None (Some ''sales'') None)) = []"
    by code_simp
  moreover have "category_of (ex_args None (Some ''sales'') None) = ''sales''" by code_simp
  moreover have "st_log (tiers_of [ex_service] (ex_args None (Some ''sales'') None)) = []"
    by code_simp
  ultimately show ?thesis by simp
qed

subsection \<open>The last tier\<close>











section \<open>Properties of the destination service\<close>

text \<open>
  What a resolution of the discovery destination does: it passes no token of its caller,
  makes at most one managed lookup, and that lookup carries \<open>getJWT env\<close>.
\<close>

lemma getDiscoveryDestination_lookup:
  "set (fst (getDiscoveryDestination cfg env sdk)) \<subseteq>
     {SdkLookup (discoveryDestinationName cfg) (getJWT env)} \<and>
   (env_USER_JWT env = None \<longrightarrow>
      set (fst (getDiscoveryDestination cfg env sdk)) \<subseteq>
        {SdkLookup (discoveryDestinationName cfg) None}) \<and>
   (from_environment env (discoveryDestinationName cfg) = Some d \<longrightarrow>
      getDiscoveryDestination cfg env sdk = ([], Inr d))"
  by (cases "from_environment env (discoveryDestinationName cfg)")
     (simp_all add: getDiscoveryDestination_def getDestination_def getJWT_def Let_def)

text \<open>
  C7. The discovery destination is to be resolved with the technical credential, without
  any end-user token, as the code's own comment (\<^verbatim>\<open>uses technical user\<close>) and its
  explicit \<^verbatim>\<open>undefined\<close> argument say. The code does not do so: with no environment
  endpoints and \<^verbatim>\<open>USER_JWT\<close> set, the fallback \<^verbatim>\<open>jwtToken || this.getJWT()\<close> puts
  that user token on the discovery lookup, and the endpoint resolved differs from the one
  resolved without a user token.
\<close>

theorem discovery_attaches_user_jwt:
  "fst (getDiscoveryDestination ex_cfg (ex_env (Some ''user-a-jwt'')) ex_sdk) =
     [SdkLookup ''SAP_SYSTEM'' (Some ''user-a-jwt'')] \<and>
   fst (getDiscoveryDestination ex_cfg (ex_env None) ex_sdk) = [SdkLookup ''SAP_SYSTEM'' None] \<and>
   snd (getDiscoveryDestination ex_cfg (ex_env (Some ''user-a-jwt'')) ex_sdk) \<noteq>
   snd (getDiscoveryDestination ex_cfg (ex_env None) ex_sdk)"
  by (simp add: getDiscoveryDestination_def getDestination_def getJWT_def Let_def
        discoveryDestinationName_def ex_cfg_def ex_env_def ex_sdk_def from_environment_def)

end
